theory Spec2Isabelle
  imports Main "HOL-Library.Word"
begin

unbundle bit_operations_syntax

section \<open>Data model of \<^verbatim>\<open>components/i2cdev/i2cdev.c\<close>\<close>

text \<open>
  \<^verbatim>\<open>esp_err_t\<close> is a signed integer code. The four codes the file uses come from
  ESP-IDF's \<^verbatim>\<open>esp_err.h\<close>: \<^verbatim>\<open>ESP_OK = 0\<close>, \<^verbatim>\<open>ESP_FAIL = -1\<close>,
  \<^verbatim>\<open>ESP_ERR_INVALID_ARG = 0x102\<close>, \<^verbatim>\<open>ESP_ERR_TIMEOUT = 0x107\<close>.
\<close>

type_synonym esp_err_t = int

definition ESP_OK :: esp_err_t where
  "ESP_OK = 0"

definition ESP_FAIL :: esp_err_t where
  "ESP_FAIL = - 1"

definition ESP_ERR_INVALID_ARG :: esp_err_t where
  "ESP_ERR_INVALID_ARG = 258"

definition ESP_ERR_TIMEOUT :: esp_err_t where
  "ESP_ERR_TIMEOUT = 263"

text \<open>
  \<^verbatim>\<open>i2c_mode_t\<close>, \<^verbatim>\<open>i2c_config_t\<close> (the fields this file reads or writes) and the
  device descriptor \<^verbatim>\<open>i2c_dev_t\<close> of \<^verbatim>\<open>i2cdev.h\<close> (port, 7-bit address in a
  \<^verbatim>\<open>uint8_t\<close>, bus configuration). A port is the index into the two static
  tables; the C code reads them without a range check, so the model covers ports
  below \<^verbatim>\<open>I2C_NUM_MAX\<close> only.
\<close>

datatype i2c_mode_t = I2C_MODE_SLAVE | I2C_MODE_MASTER

record i2c_config_t =
  mode :: i2c_mode_t
  sda_io_num :: int
  sda_pullup_en :: bool
  scl_io_num :: int
  scl_pullup_en :: bool
  master_clk_speed :: "32 word"

record i2c_dev_t =
  port :: nat
  addr :: "8 word"
  cfg :: i2c_config_t

text \<open>
  A \<^verbatim>\<open>SemaphoreHandle_t\<close> is a pointer: \<open>None\<close> is \<^verbatim>\<open>NULL\<close>. Buffers handed in by
  the caller are pointers too: an outgoing buffer is the bytes it points to, an
  incoming buffer is its address.
\<close>

type_synonym handle = nat

datatype i2c_ack_type_t = I2C_MASTER_ACK | I2C_MASTER_NACK | I2C_MASTER_LAST_NACK

text \<open>One entry of a command link, as queued by the \<^verbatim>\<open>i2c_master_*\<close> builder calls.\<close>

datatype i2c_cmd =
    Master_start
  | Master_write_byte "8 word" bool
  | Master_write "8 word list" nat bool
  | Master_read nat nat i2c_ack_type_t
  | Master_stop

datatype log_msg =
    Could_not_create_mutex nat
  | Could_not_take_mutex nat
  | Could_not_give_mutex nat
  | Could_not_read_from_device "8 word" nat esp_err_t
  | Could_not_write_to_device "8 word" nat esp_err_t

text \<open>
  Every call that leaves the file (FreeRTOS, the I2C driver, the logger) is recorded
  with its arguments and, where the code looks at it, its result. A semaphore call
  on \<^verbatim>\<open>locks[port]\<close> also records the port.
\<close>

datatype event =
    SemaphoreCreateMutex nat "handle option"
  | SemaphoreTake nat "handle option" bool
  | SemaphoreGive nat "handle option" bool
  | SemaphoreDelete nat "handle option"
  | DriverDelete nat
  | ParamConfig nat i2c_config_t esp_err_t
  | DriverInstall nat i2c_mode_t esp_err_t
  | CmdLinkCreate
  | CmdBegin nat "i2c_cmd list" esp_err_t
  | CmdLinkDelete
  | LogE log_msg

text \<open>
  The file's two static tables and the history of external calls so far, in the
  order they were made.
\<close>

record state =
  locks :: "nat \<Rightarrow> handle option"
  configs :: "nat \<Rightarrow> i2c_config_t"
  trace :: "event list"

text \<open>
  The external collaborators: what each primitive answers, given the history of
  calls before it and its arguments. The timeout argument of
  \<^verbatim>\<open>xSemaphoreTake\<close> and \<^verbatim>\<open>i2c_master_cmd_begin\<close> is the constant
  \<^verbatim>\<open>CONFIG_I2CDEV_TIMEOUT / portTICK_RATE_MS\<close> and is left out.
\<close>

record env =
  xSemaphoreCreateMutex :: "event list \<Rightarrow> handle option"
  xSemaphoreTake :: "event list \<Rightarrow> handle option \<Rightarrow> bool"
  xSemaphoreGive :: "event list \<Rightarrow> handle option \<Rightarrow> bool"
  i2c_param_config :: "event list \<Rightarrow> nat \<Rightarrow> i2c_config_t \<Rightarrow> esp_err_t"
  i2c_driver_install :: "event list \<Rightarrow> nat \<Rightarrow> i2c_mode_t \<Rightarrow> esp_err_t"
  i2c_master_cmd_begin :: "event list \<Rightarrow> nat \<Rightarrow> i2c_cmd list \<Rightarrow> esp_err_t"

definition emit :: "event \<Rightarrow> state \<Rightarrow> state" where
  "emit e s = s\<lparr>trace := trace s @ [e]\<rparr>"

text \<open>The events a call added: those of \<open>s'\<close> after the history of \<open>s\<close>.\<close>

definition new_events :: "state \<Rightarrow> state \<Rightarrow> event list" where
  "new_events s s' = drop (length (trace s)) (trace s')"

text \<open>Static storage is zero-initialised.\<close>

definition zero_config :: i2c_config_t where
  "zero_config = \<lparr>mode = I2C_MODE_SLAVE, sda_io_num = 0, sda_pullup_en = False,
     scl_io_num = 0, scl_pullup_en = False, master_clk_speed = 0\<rparr>"

definition boot_state :: state where
  "boot_state = \<lparr>locks = (\<lambda>_. None), configs = (\<lambda>_. zero_config), trace = []\<rparr>"

section \<open>The functions of the file\<close>

text \<open>
  \<^verbatim>\<open>SEMAPHORE_TAKE(port)\<close> and \<^verbatim>\<open>SEMAPHORE_GIVE(port)\<close>: \<open>Some e\<close> is the macro's
  \<^verbatim>\<open>return e\<close> out of the enclosing function, \<open>None\<close> falls through.
\<close>

definition SEMAPHORE_TAKE :: "env \<Rightarrow> nat \<Rightarrow> state \<Rightarrow> esp_err_t option \<times> state" where
  "SEMAPHORE_TAKE E p s =
     (let r = xSemaphoreTake E (trace s) (locks s p);
          s1 = emit (SemaphoreTake p (locks s p) r) s
      in if \<not> r then (Some ESP_ERR_TIMEOUT, emit (LogE (Could_not_take_mutex p)) s1)
         else (None, s1))"

definition SEMAPHORE_GIVE :: "env \<Rightarrow> nat \<Rightarrow> state \<Rightarrow> esp_err_t option \<times> state" where
  "SEMAPHORE_GIVE E p s =
     (let r = xSemaphoreGive E (trace s) (locks s p);
          s1 = emit (SemaphoreGive p (locks s p) r) s
      in if \<not> r then (Some ESP_FAIL, emit (LogE (Could_not_give_mutex p)) s1)
         else (None, s1))"

text \<open>\<^verbatim>\<open>i2cdev_init\<close>: the loop over \<^verbatim>\<open>i = 0 .. I2C_NUM_MAX - 1\<close>, from index \<open>i\<close>.\<close>

function i2cdev_init_from :: "nat \<Rightarrow> env \<Rightarrow> nat \<Rightarrow> state \<Rightarrow> esp_err_t \<times> state" where
  "i2cdev_init_from n E i s =
     (if i < n then
        (let h = xSemaphoreCreateMutex E (trace s);
             s1 = emit (SemaphoreCreateMutex i h) (s\<lparr>locks := (locks s)(i := h)\<rparr>)
         in if h = None then (ESP_FAIL, emit (LogE (Could_not_create_mutex i)) s1)
            else i2cdev_init_from n E (Suc i) s1)
      else (ESP_OK, s))"
  by pat_completeness auto
termination
  by (relation "measure (\<lambda>(n, E, i, s). n - i)") auto

declare i2cdev_init_from.simps [simp del]

definition i2cdev_init :: "nat \<Rightarrow> env \<Rightarrow> state \<Rightarrow> esp_err_t \<times> state" where
  "i2cdev_init I2C_NUM_MAX E s = i2cdev_init_from I2C_NUM_MAX E 0 s"

text \<open>\<^verbatim>\<open>i2cdev_done\<close>: the loop from index \<open>i\<close>; \<^verbatim>\<open>continue\<close> on a \<^verbatim>\<open>NULL\<close> lock.\<close>

function i2cdev_done_from :: "nat \<Rightarrow> env \<Rightarrow> nat \<Rightarrow> state \<Rightarrow> esp_err_t \<times> state" where
  "i2cdev_done_from n E i s =
     (if i < n then
        (if locks s i = None then i2cdev_done_from n E (Suc i) s
         else
           (case SEMAPHORE_TAKE E i s of
              (Some e, s1) \<Rightarrow> (e, s1)
            | (None, s1) \<Rightarrow>
                (case SEMAPHORE_GIVE E i (emit (DriverDelete i) s1) of
                   (Some e, s2) \<Rightarrow> (e, s2)
                 | (None, s2) \<Rightarrow>
                     i2cdev_done_from n E (Suc i) (emit (SemaphoreDelete i (locks s2 i)) s2))))
      else (ESP_OK, s))"
  by pat_completeness auto
termination
  by (relation "measure (\<lambda>(n, E, i, s). n - i)") auto

declare i2cdev_done_from.simps [simp del]

definition i2cdev_done :: "nat \<Rightarrow> env \<Rightarrow> state \<Rightarrow> esp_err_t \<times> state" where
  "i2cdev_done I2C_NUM_MAX E s = i2cdev_done_from I2C_NUM_MAX E 0 s"

definition cfg_equal :: "i2c_config_t \<Rightarrow> i2c_config_t \<Rightarrow> bool" where
  "cfg_equal a b \<longleftrightarrow>
     scl_io_num a = scl_io_num b
     \<and> sda_io_num a = sda_io_num b
     \<and> scl_pullup_en a = scl_pullup_en b
     \<and> sda_pullup_en a = sda_pullup_en b
     \<and> master_clk_speed a = master_clk_speed b"

text \<open>
  \<^verbatim>\<open>i2c_setup_port\<close>. The copy \<^verbatim>\<open>temp\<close> is local; the function has no assignment
  to \<^verbatim>\<open>configs[port]\<close>. The result of \<^verbatim>\<open>i2c_driver_delete\<close> is ignored.
\<close>

definition i2c_setup_port :: "env \<Rightarrow> nat \<Rightarrow> i2c_config_t option \<Rightarrow> state \<Rightarrow> esp_err_t \<times> state" where
  "i2c_setup_port E p c s =
     (case c of
        None \<Rightarrow> (ESP_ERR_INVALID_ARG, s)
      | Some c' \<Rightarrow>
          if \<not> cfg_equal c' (configs s p) then
            (let temp = c'\<lparr>mode := I2C_MODE_MASTER\<rparr>;
                 s1 = emit (DriverDelete p) s;
                 res = i2c_param_config E (trace s1) p temp;
                 s2 = emit (ParamConfig p temp res) s1
             in if res \<noteq> ESP_OK then (res, s2)
                else
                  (let res' = i2c_driver_install E (trace s2) p (mode temp);
                       s3 = emit (DriverInstall p (mode temp) res') s2
                   in if res' \<noteq> ESP_OK then (res', s3) else (ESP_OK, s3)))
          else (ESP_OK, s))"

text \<open>
  \<^verbatim>\<open>i2c_dev_read\<close>, lines 125 to 135: the builder calls on the new command link, in
  order. \<^verbatim>\<open>dev->addr << 1\<close> is passed as the \<^verbatim>\<open>uint8_t\<close> argument of
  \<^verbatim>\<open>i2c_master_write_byte\<close>, so it is an 8-bit shift. The results of the builder
  calls are ignored.
\<close>

definition i2c_dev_read_cmd ::
  "i2c_dev_t \<Rightarrow> 8 word list option \<Rightarrow> nat \<Rightarrow> nat \<Rightarrow> nat \<Rightarrow> i2c_cmd list" where
  "i2c_dev_read_cmd d out_data out_size in_data in_size =
     (if out_data \<noteq> None \<and> out_size \<noteq> 0
      then [Master_start,
            Master_write_byte (push_bit 1 (addr d)) True,
            Master_write (the out_data) out_size True]
      else [])
     @ [Master_start,
        Master_write_byte (push_bit 1 (addr d) OR 1) True,
        Master_read in_data in_size I2C_MASTER_LAST_NACK,
        Master_stop]"

text \<open>\<^verbatim>\<open>i2c_dev_read\<close>, lines 124 to 142: the block run when the port setup succeeded.\<close>

definition i2c_dev_read_xfer ::
  "env \<Rightarrow> i2c_dev_t \<Rightarrow> 8 word list option \<Rightarrow> nat \<Rightarrow> nat \<Rightarrow> nat \<Rightarrow> state \<Rightarrow> esp_err_t \<times> state" where
  "i2c_dev_read_xfer E d out_data out_size in_data in_size s =
     (let s1 = emit CmdLinkCreate s;
          cmd = i2c_dev_read_cmd d out_data out_size in_data in_size;
          res = i2c_master_cmd_begin E (trace s1) (port d) cmd;
          s2 = emit (CmdBegin (port d) cmd res) s1;
          s3 = (if res \<noteq> ESP_OK
                then emit (LogE (Could_not_read_from_device (addr d) (port d) res)) s2
                else s2)
      in (res, emit CmdLinkDelete s3))"

text \<open>\<^verbatim>\<open>i2c_dev_read\<close>: the block assigns its result to \<^verbatim>\<open>res\<close>, which is returned.\<close>

definition i2c_dev_read ::
  "env \<Rightarrow> i2c_dev_t option \<Rightarrow> 8 word list option \<Rightarrow> nat \<Rightarrow> nat option \<Rightarrow> nat \<Rightarrow> state
     \<Rightarrow> esp_err_t \<times> state" where
  "i2c_dev_read E dev out_data out_size in_data in_size s =
     (if dev = None \<or> in_data = None \<or> in_size = 0 then (ESP_ERR_INVALID_ARG, s)
      else
        (case SEMAPHORE_TAKE E (port (the dev)) s of
           (Some e, s1) \<Rightarrow> (e, s1)
         | (None, s1) \<Rightarrow>
             (case i2c_setup_port E (port (the dev)) (Some (cfg (the dev))) s1 of
                (res, s2) \<Rightarrow>
                  (case (if res = ESP_OK
                         then i2c_dev_read_xfer E (the dev) out_data out_size (the in_data) in_size s2
                         else (res, s2)) of
                     (res', s3) \<Rightarrow>
                       (case SEMAPHORE_GIVE E (port (the dev)) s3 of
                          (Some e, s4) \<Rightarrow> (e, s4)
                        | (None, s4) \<Rightarrow> (res', s4))))))"

text \<open>\<^verbatim>\<open>i2c_dev_write\<close>, lines 157 to 163: the builder calls, in order.\<close>

definition i2c_dev_write_cmd ::
  "i2c_dev_t \<Rightarrow> 8 word list option \<Rightarrow> nat \<Rightarrow> 8 word list \<Rightarrow> nat \<Rightarrow> i2c_cmd list" where
  "i2c_dev_write_cmd d out_reg out_reg_size out_data out_size =
     [Master_start,
      Master_write_byte (push_bit 1 (addr d)) True]
     @ (if out_reg \<noteq> None \<and> out_reg_size \<noteq> 0
        then [Master_write (the out_reg) out_reg_size True]
        else [])
     @ [Master_write out_data out_size True,
        Master_stop]"

text \<open>
  \<^verbatim>\<open>i2c_dev_write\<close>, lines 156 to 168: the block run when the port setup succeeded.
  Its result is the block's own \<^verbatim>\<open>esp_err_t res\<close>, declared on line 164.
\<close>

definition i2c_dev_write_xfer ::
  "env \<Rightarrow> i2c_dev_t \<Rightarrow> 8 word list option \<Rightarrow> nat \<Rightarrow> 8 word list \<Rightarrow> nat \<Rightarrow> state
     \<Rightarrow> esp_err_t \<times> state" where
  "i2c_dev_write_xfer E d out_reg out_reg_size out_data out_size s =
     (let s1 = emit CmdLinkCreate s;
          cmd = i2c_dev_write_cmd d out_reg out_reg_size out_data out_size;
          res = i2c_master_cmd_begin E (trace s1) (port d) cmd;
          s2 = emit (CmdBegin (port d) cmd res) s1;
          s3 = (if res \<noteq> ESP_OK
                then emit (LogE (Could_not_write_to_device (addr d) (port d) res)) s2
                else s2)
      in (res, emit CmdLinkDelete s3))"

text \<open>
  \<^verbatim>\<open>i2c_dev_write\<close>. The block's \<^verbatim>\<open>res\<close> shadows the outer one and goes out of
  scope at the closing brace; the \<^verbatim>\<open>return res\<close> after the give reads the outer
  variable, which still holds the result of \<^verbatim>\<open>i2c_setup_port\<close>.
\<close>

definition i2c_dev_write ::
  "env \<Rightarrow> i2c_dev_t option \<Rightarrow> 8 word list option \<Rightarrow> nat \<Rightarrow> 8 word list option \<Rightarrow> nat \<Rightarrow> state
     \<Rightarrow> esp_err_t \<times> state" where
  "i2c_dev_write E dev out_reg out_reg_size out_data out_size s =
     (if dev = None \<or> out_data = None \<or> out_size = 0 then (ESP_ERR_INVALID_ARG, s)
      else
        (case SEMAPHORE_TAKE E (port (the dev)) s of
           (Some e, s1) \<Rightarrow> (e, s1)
         | (None, s1) \<Rightarrow>
             (case i2c_setup_port E (port (the dev)) (Some (cfg (the dev))) s1 of
                (res, s2) \<Rightarrow>
                  (case (if res = ESP_OK
                         then i2c_dev_write_xfer E (the dev) out_reg out_reg_size (the out_data) out_size s2
                         else (res, s2)) of
                     (inner_res, s3) \<Rightarrow>
                       (case SEMAPHORE_GIVE E (port (the dev)) s3 of
                          (Some e, s4) \<Rightarrow> (e, s4)
                        | (None, s4) \<Rightarrow> (res, s4))))))"

section \<open>Test fixtures\<close>

text \<open>An environment in which every primitive succeeds, and a typical device.\<close>

definition env_ok :: env where
  "env_ok = \<lparr>xSemaphoreCreateMutex = (\<lambda>h. Some (length h)),
     xSemaphoreTake = (\<lambda>h l. True),
     xSemaphoreGive = (\<lambda>h l. True),
     i2c_param_config = (\<lambda>h p c. ESP_OK),
     i2c_driver_install = (\<lambda>h p m. ESP_OK),
     i2c_master_cmd_begin = (\<lambda>h p c. ESP_OK)\<rparr>"

definition cfg0 :: i2c_config_t where
  "cfg0 = \<lparr>mode = I2C_MODE_MASTER, sda_io_num = 21, sda_pullup_en = True,
     scl_io_num = 22, scl_pullup_en = True, master_clk_speed = 100000\<rparr>"

definition dev0 :: i2c_dev_t where
  "dev0 = \<lparr>port = 0, addr = 0x68, cfg = cfg0\<rparr>"

text \<open>The state after \<^verbatim>\<open>i2cdev_init\<close> on two ports, both mutexes created.\<close>

definition ready_state :: state where
  "ready_state = \<lparr>locks = (\<lambda>_. None)(0 := Some 0, 1 := Some 1),
     configs = (\<lambda>_. zero_config),
     trace = [SemaphoreCreateMutex 0 (Some 0), SemaphoreCreateMutex 1 (Some 1)]\<rparr>"

text \<open>
  Environments in which one primitive fails: the lock is never obtained; the transfer
  is not acknowledged; the lock cannot be given back; the lock of port 1 is never
  obtained. \<open>after_first_write\<close> is the state left by one successful write to \<open>dev0\<close>.
\<close>

definition env_busy :: env where
  "env_busy = env_ok\<lparr>xSemaphoreTake := (\<lambda>h l. False)\<rparr>"

definition env_nack :: env where
  "env_nack = env_ok\<lparr>i2c_master_cmd_begin := (\<lambda>h p c. ESP_FAIL)\<rparr>"

definition env_give_fails :: env where
  "env_give_fails = env_ok\<lparr>xSemaphoreGive := (\<lambda>h l. False)\<rparr>"

definition env_port1_busy :: env where
  "env_port1_busy = env_ok\<lparr>xSemaphoreTake := (\<lambda>h l. l \<noteq> Some 1)\<rparr>"

definition after_first_write :: state where
  "after_first_write = snd (i2c_dev_write env_ok (Some dev0) None 0 (Some [1, 2, 3, 4]) 4 ready_state)"

section \<open>Vocabulary for the call history\<close>

text \<open>
  \<open>extends s s'\<close>: \<open>s'\<close> is \<open>s\<close> with more history and the same tables. The event
  classes below name the calls made by \<^verbatim>\<open>i2c_setup_port\<close>, by the transfer block and
  by \<^verbatim>\<open>SEMAPHORE_GIVE\<close>.
\<close>

definition extends :: "state \<Rightarrow> state \<Rightarrow> bool" where
  "extends s s' \<longleftrightarrow> s' = s\<lparr>trace := trace s @ new_events s s'\<rparr>"

fun is_setup_event :: "event \<Rightarrow> bool" where
  "is_setup_event (DriverDelete p) = True"
| "is_setup_event (ParamConfig p c r) = True"
| "is_setup_event (DriverInstall p m r) = True"
| "is_setup_event _ = False"

fun is_give :: "event \<Rightarrow> bool" where
  "is_give (SemaphoreGive p h r) = True"
| "is_give _ = False"

definition read_xfer_events :: "i2c_dev_t \<Rightarrow> 8 word list option \<Rightarrow> nat \<Rightarrow> nat \<Rightarrow> nat \<Rightarrow> esp_err_t \<Rightarrow> event list" where
  "read_xfer_events d out_data out_size buf in_size r =
     CmdLinkCreate
     # CmdBegin (port d) (i2c_dev_read_cmd d out_data out_size buf in_size) r
     # (if r \<noteq> ESP_OK then [LogE (Could_not_read_from_device (addr d) (port d) r)] else [])
     @ [CmdLinkDelete]"

definition write_xfer_events :: "i2c_dev_t \<Rightarrow> 8 word list option \<Rightarrow> nat \<Rightarrow> 8 word list \<Rightarrow> nat \<Rightarrow> esp_err_t \<Rightarrow> event list" where
  "write_xfer_events d out_reg out_reg_size dat out_size r =
     CmdLinkCreate
     # CmdBegin (port d) (i2c_dev_write_cmd d out_reg out_reg_size dat out_size) r
     # (if r \<noteq> ESP_OK then [LogE (Could_not_write_to_device (addr d) (port d) r)] else [])
     @ [CmdLinkDelete]"

definition give_events :: "nat \<Rightarrow> handle option \<Rightarrow> bool \<Rightarrow> event list" where
  "give_events p l g = SemaphoreGive p l g # (if g then [] else [LogE (Could_not_give_mutex p)])"

text \<open>
  Vocabulary for the loop of \<^verbatim>\<open>i2cdev_done\<close>: the events of an iteration started at
  index \<open>i\<close> concern ports from \<open>i\<close> on; a failed take, or a failed give, is followed
  by its log line and nothing else.
\<close>

fun from_port :: "nat \<Rightarrow> event \<Rightarrow> bool" where
  "from_port i (SemaphoreTake k h b) = (i \<le> k)"
| "from_port i (SemaphoreGive k h b) = (i \<le> k)"
| "from_port i (SemaphoreDelete k h) = (i \<le> k)"
| "from_port i (DriverDelete k) = (i \<le> k)"
| "from_port i _ = True"

definition take_abort :: "esp_err_t \<Rightarrow> event list \<Rightarrow> bool" where
  "take_abort r ev \<longleftrightarrow>
     (\<forall>k h. SemaphoreTake k h False \<in> set ev \<longrightarrow>
        r = ESP_ERR_TIMEOUT
        \<and> (\<exists>pre. ev = pre @ [SemaphoreTake k h False, LogE (Could_not_take_mutex k)])
        \<and> (\<forall>j h'. k \<le> j \<longrightarrow> DriverDelete j \<notin> set ev \<and> SemaphoreDelete j h' \<notin> set ev))"

definition give_abort :: "esp_err_t \<Rightarrow> event list \<Rightarrow> bool" where
  "give_abort r ev \<longleftrightarrow>
     (\<forall>k h. SemaphoreGive k h False \<in> set ev \<longrightarrow>
        r = ESP_FAIL
        \<and> (\<exists>pre. ev = pre @ [SemaphoreGive k h False, LogE (Could_not_give_mutex k)])
        \<and> (\<forall>j h'. k \<le> j \<longrightarrow> SemaphoreDelete j h' \<notin> set ev)
        \<and> (\<forall>j. k < j \<longrightarrow> DriverDelete j \<notin> set ev))"

definition teardown_log :: "nat \<Rightarrow> esp_err_t \<Rightarrow> event list \<Rightarrow> bool" where
  "teardown_log i r ev \<longleftrightarrow> (\<forall>e\<in>set ev. from_port i e) \<and> take_abort r ev \<and> give_abort r ev"

section \<open>Symbolic execution of the pieces\<close>

lemma i2cdev_init_ready: "i2cdev_init 2 env_ok boot_state = (ESP_OK, ready_state)"
  by (simp add: i2cdev_init_def i2cdev_init_from.simps env_ok_def boot_state_def
      ready_state_def emit_def ESP_OK_def Let_def)

lemma new_events_upd [simp]: "new_events s (s\<lparr>trace := trace s @ ev\<rparr>) = ev"
  by (simp add: new_events_def)

lemma new_events_self [simp]: "new_events s s = []"
  by (simp add: new_events_def)

lemma extendsI: "s' = s\<lparr>trace := trace s @ ev\<rparr> \<Longrightarrow> extends s s'"
  by (simp add: extends_def new_events_def)

lemma extends_refl: "extends s s"
  by (simp add: extends_def new_events_def)

lemma take_cases:
  "SEMAPHORE_TAKE E p s =
     (if xSemaphoreTake E (trace s) (locks s p)
      then (None, s\<lparr>trace := trace s @ [SemaphoreTake p (locks s p) True]\<rparr>)
      else (Some ESP_ERR_TIMEOUT, s\<lparr>trace := trace s @ [SemaphoreTake p (locks s p) False,
              LogE (Could_not_take_mutex p)]\<rparr>))"
  by (simp add: SEMAPHORE_TAKE_def emit_def)

lemma give_cases:
  "SEMAPHORE_GIVE E p s =
     (if xSemaphoreGive E (trace s) (locks s p)
      then (None, s\<lparr>trace := trace s @ [SemaphoreGive p (locks s p) True]\<rparr>)
      else (Some ESP_FAIL, s\<lparr>trace := trace s @ [SemaphoreGive p (locks s p) False,
              LogE (Could_not_give_mutex p)]\<rparr>))"
  by (simp add: SEMAPHORE_GIVE_def emit_def)

lemma setup_extends: "extends s (snd (i2c_setup_port E p c s))"
  by (cases c) (auto simp: i2c_setup_port_def emit_def Let_def extends_refl intro!: extendsI)

lemma setup_events:
  "\<forall>e \<in> set (new_events s (snd (i2c_setup_port E p c s))). is_setup_event e"
  by (cases c) (simp_all add: i2c_setup_port_def emit_def Let_def new_events_def)

lemma read_xfer_eq:
  "i2c_dev_read_xfer E d out_data out_size buf in_size s = (r, s') \<Longrightarrow>
     s' = s\<lparr>trace := trace s @ CmdLinkCreate
            # CmdBegin (port d) (i2c_dev_read_cmd d out_data out_size buf in_size) r
            # (if r \<noteq> ESP_OK then [LogE (Could_not_read_from_device (addr d) (port d) r)] else [])
            @ [CmdLinkDelete]\<rparr>"
  by (auto simp: i2c_dev_read_xfer_def emit_def Let_def)

lemma write_xfer_eq:
  "i2c_dev_write_xfer E d out_reg out_reg_size dat out_size s = (r, s') \<Longrightarrow>
     s' = s\<lparr>trace := trace s @ CmdLinkCreate
            # CmdBegin (port d) (i2c_dev_write_cmd d out_reg out_reg_size dat out_size) r
            # (if r \<noteq> ESP_OK then [LogE (Could_not_write_to_device (addr d) (port d) r)] else [])
            @ [CmdLinkDelete]\<rparr>"
  by (auto simp: i2c_dev_write_xfer_def emit_def Let_def)

lemma setup_no_give: "\<forall>e\<in>set evs. is_setup_event e \<Longrightarrow> filter is_give evs = []"
proof (induction evs)
  case Nil
  show ?case by simp
next
  case (Cons e evs)
  then show ?case by (cases e) simp_all
qed

lemma setup_not_give: "\<forall>e\<in>set evs. is_setup_event e \<Longrightarrow> SemaphoreGive p h g \<notin> set evs"
  by auto

lemma setup_not_begin: "\<forall>e\<in>set evs. is_setup_event e \<Longrightarrow> CmdBegin p c r \<notin> set evs"
  by auto

lemma read_invalid:
  "dev = None \<or> in_data = None \<or> in_size = 0 \<Longrightarrow>
     i2c_dev_read E dev out_data out_size in_data in_size s = (ESP_ERR_INVALID_ARG, s)"
  by (simp add: i2c_dev_read_def)

lemma write_invalid:
  "dev = None \<or> out_data = None \<or> out_size = 0 \<Longrightarrow>
     i2c_dev_write E dev out_reg out_reg_size out_data out_size s = (ESP_ERR_INVALID_ARG, s)"
  by (simp add: i2c_dev_write_def)

lemma read_timeout:
  "in_size \<noteq> 0 \<Longrightarrow> \<not> xSemaphoreTake E (trace s) (locks s (port d)) \<Longrightarrow>
     i2c_dev_read E (Some d) out_data out_size (Some buf) in_size s =
       (ESP_ERR_TIMEOUT,
        s\<lparr>trace := trace s @ [SemaphoreTake (port d) (locks s (port d)) False,
                               LogE (Could_not_take_mutex (port d))]\<rparr>)"
  by (simp add: i2c_dev_read_def take_cases)

lemma write_timeout:
  "out_size \<noteq> 0 \<Longrightarrow> \<not> xSemaphoreTake E (trace s) (locks s (port d)) \<Longrightarrow>
     i2c_dev_write E (Some d) out_reg out_reg_size (Some dat) out_size s =
       (ESP_ERR_TIMEOUT,
        s\<lparr>trace := trace s @ [SemaphoreTake (port d) (locks s (port d)) False,
                               LogE (Could_not_take_mutex (port d))]\<rparr>)"
  by (simp add: i2c_dev_write_def take_cases)

lemma read_shape:
  assumes "in_size \<noteq> 0" and "xSemaphoreTake E (trace s) (locks s (port d))"
  shows "\<exists>evs evx res g.
     i2c_dev_read E (Some d) out_data out_size (Some buf) in_size s
       = (if g then res else ESP_FAIL,
          s\<lparr>trace := trace s @ SemaphoreTake (port d) (locks s (port d)) True # evs @ evx
                         @ give_events (port d) (locks s (port d)) g\<rparr>)
     \<and> (\<forall>e\<in>set evs. is_setup_event e)
     \<and> (evx = [] \<or> evx = read_xfer_events d out_data out_size buf in_size res)"
proof -
  let ?p = "port d"
  let ?l = "locks s ?p"
  define s1 where "s1 = s\<lparr>trace := trace s @ [SemaphoreTake ?p ?l True]\<rparr>"
  have take: "SEMAPHORE_TAKE E ?p s = (None, s1)"
    using assms(2) by (simp add: take_cases s1_def)
  obtain res s2 where stp: "i2c_setup_port E ?p (Some (cfg d)) s1 = (res, s2)"
    by (cases "i2c_setup_port E ?p (Some (cfg d)) s1")
  define evs where "evs = new_events s1 s2"
  have s2: "s2 = s1\<lparr>trace := trace s1 @ evs\<rparr>"
    using setup_extends [of s1 E ?p "Some (cfg d)"] stp by (simp add: extends_def evs_def)
  have evs: "\<forall>e\<in>set evs. is_setup_event e"
    using setup_events [of s1 E ?p "Some (cfg d)"] stp by (simp add: evs_def)
  obtain res' s3 where xfer:
    "(if res = ESP_OK then i2c_dev_read_xfer E d out_data out_size buf in_size s2 else (res, s2))
       = (res', s3)"
    by (cases "if res = ESP_OK then i2c_dev_read_xfer E d out_data out_size buf in_size s2 else (res, s2)")
  define evx where
    "evx = (if res = ESP_OK then read_xfer_events d out_data out_size buf in_size res' else [])"
  have s3: "s3 = s2\<lparr>trace := trace s2 @ evx\<rparr>"
    using xfer by (auto simp: evx_def read_xfer_events_def split: if_splits dest: read_xfer_eq)
  define g where "g = xSemaphoreGive E (trace s3) (locks s3 ?p)"
  have l3: "locks s3 ?p = ?l"
    by (simp add: s3 s2 s1_def)
  have give: "SEMAPHORE_GIVE E ?p s3
      = (if g then None else Some ESP_FAIL, s3\<lparr>trace := trace s3 @ give_events ?p ?l g\<rparr>)"
    by (simp add: give_cases g_def l3 give_events_def)
  have "i2c_dev_read E (Some d) out_data out_size (Some buf) in_size s
      = (if g then res' else ESP_FAIL, s3\<lparr>trace := trace s3 @ give_events ?p ?l g\<rparr>)"
    using assms(1) xfer give by (cases "res = ESP_OK") (simp_all add: i2c_dev_read_def take stp)
  also have "s3\<lparr>trace := trace s3 @ give_events ?p ?l g\<rparr>
      = s\<lparr>trace := trace s @ SemaphoreTake ?p ?l True # evs @ evx @ give_events ?p ?l g\<rparr>"
    by (simp add: s3 s2 s1_def)
  finally have run: "i2c_dev_read E (Some d) out_data out_size (Some buf) in_size s
      = (if g then res' else ESP_FAIL,
         s\<lparr>trace := trace s @ SemaphoreTake ?p ?l True # evs @ evx @ give_events ?p ?l g\<rparr>)" .
  have "evx = [] \<or> evx = read_xfer_events d out_data out_size buf in_size res'"
    by (simp add: evx_def)
  with run evs show ?thesis by blast
qed

lemma write_shape:
  assumes "out_size \<noteq> 0" and "xSemaphoreTake E (trace s) (locks s (port d))"
  shows "\<exists>evs evx res inner_res g.
     i2c_dev_write E (Some d) out_reg out_reg_size (Some dat) out_size s
       = (if g then res else ESP_FAIL,
          s\<lparr>trace := trace s @ SemaphoreTake (port d) (locks s (port d)) True # evs @ evx
                         @ give_events (port d) (locks s (port d)) g\<rparr>)
     \<and> (\<forall>e\<in>set evs. is_setup_event e)
     \<and> (evx = [] \<or> res = ESP_OK \<and> evx = write_xfer_events d out_reg out_reg_size dat out_size inner_res)"
proof -
  let ?p = "port d"
  let ?l = "locks s ?p"
  define s1 where "s1 = s\<lparr>trace := trace s @ [SemaphoreTake ?p ?l True]\<rparr>"
  have take: "SEMAPHORE_TAKE E ?p s = (None, s1)"
    using assms(2) by (simp add: take_cases s1_def)
  obtain res s2 where stp: "i2c_setup_port E ?p (Some (cfg d)) s1 = (res, s2)"
    by (cases "i2c_setup_port E ?p (Some (cfg d)) s1")
  define evs where "evs = new_events s1 s2"
  have s2: "s2 = s1\<lparr>trace := trace s1 @ evs\<rparr>"
    using setup_extends [of s1 E ?p "Some (cfg d)"] stp by (simp add: extends_def evs_def)
  have evs: "\<forall>e\<in>set evs. is_setup_event e"
    using setup_events [of s1 E ?p "Some (cfg d)"] stp by (simp add: evs_def)
  obtain res' s3 where xfer:
    "(if res = ESP_OK then i2c_dev_write_xfer E d out_reg out_reg_size dat out_size s2 else (res, s2))
       = (res', s3)"
    by (cases "if res = ESP_OK then i2c_dev_write_xfer E d out_reg out_reg_size dat out_size s2 else (res, s2)")
  define evx where
    "evx = (if res = ESP_OK then write_xfer_events d out_reg out_reg_size dat out_size res' else [])"
  have s3: "s3 = s2\<lparr>trace := trace s2 @ evx\<rparr>"
    using xfer by (auto simp: evx_def write_xfer_events_def split: if_splits dest: write_xfer_eq)
  define g where "g = xSemaphoreGive E (trace s3) (locks s3 ?p)"
  have l3: "locks s3 ?p = ?l"
    by (simp add: s3 s2 s1_def)
  have give: "SEMAPHORE_GIVE E ?p s3
      = (if g then None else Some ESP_FAIL, s3\<lparr>trace := trace s3 @ give_events ?p ?l g\<rparr>)"
    by (simp add: give_cases g_def l3 give_events_def)
  have "i2c_dev_write E (Some d) out_reg out_reg_size (Some dat) out_size s
      = (if g then res else ESP_FAIL, s3\<lparr>trace := trace s3 @ give_events ?p ?l g\<rparr>)"
    using assms(1) xfer give by (cases "res = ESP_OK") (simp_all add: i2c_dev_write_def take stp)
  also have "s3\<lparr>trace := trace s3 @ give_events ?p ?l g\<rparr>
      = s\<lparr>trace := trace s @ SemaphoreTake ?p ?l True # evs @ evx @ give_events ?p ?l g\<rparr>"
    by (simp add: s3 s2 s1_def)
  finally have run: "i2c_dev_write E (Some d) out_reg out_reg_size (Some dat) out_size s
      = (if g then res else ESP_FAIL,
         s\<lparr>trace := trace s @ SemaphoreTake ?p ?l True # evs @ evx @ give_events ?p ?l g\<rparr>)" .
  have "evx = [] \<or> res = ESP_OK \<and> evx = write_xfer_events d out_reg out_reg_size dat out_size res'"
    by (simp add: evx_def)
  with run evs show ?thesis by blast
qed

lemma done_from_step:
  "i2cdev_done_from n E i s =
     (if i < n then
        (if locks s i = None then i2cdev_done_from n E (Suc i) s
         else if \<not> xSemaphoreTake E (trace s) (locks s i) then
           (ESP_ERR_TIMEOUT,
            s\<lparr>trace := trace s @ [SemaphoreTake i (locks s i) False,
                                   LogE (Could_not_take_mutex i)]\<rparr>)
         else if \<not> xSemaphoreGive E
                     (trace s @ [SemaphoreTake i (locks s i) True, DriverDelete i]) (locks s i) then
           (ESP_FAIL,
            s\<lparr>trace := trace s @ [SemaphoreTake i (locks s i) True, DriverDelete i,
                                   SemaphoreGive i (locks s i) False,
                                   LogE (Could_not_give_mutex i)]\<rparr>)
         else i2cdev_done_from n E (Suc i)
                (s\<lparr>trace := trace s @ [SemaphoreTake i (locks s i) True, DriverDelete i,
                                       SemaphoreGive i (locks s i) True,
                                       SemaphoreDelete i (locks s i)]\<rparr>))
      else (ESP_OK, s))"
  by (subst i2cdev_done_from.simps) (simp add: take_cases give_cases emit_def)

lemma from_port_mono: "from_port (Suc i) e \<Longrightarrow> from_port i e"
  by (cases e) simp_all

lemma teardown_log_nil: "teardown_log i ESP_OK []"
  by (simp add: teardown_log_def take_abort_def give_abort_def)

lemma teardown_log_skip: "teardown_log (Suc i) r ev \<Longrightarrow> teardown_log i r ev"
  by (auto simp: teardown_log_def intro: from_port_mono)

lemma teardown_log_timeout:
  "teardown_log i ESP_ERR_TIMEOUT [SemaphoreTake i h False, LogE (Could_not_take_mutex i)]"
  by (simp add: teardown_log_def take_abort_def give_abort_def)

lemma teardown_log_fail:
  "teardown_log i ESP_FAIL [SemaphoreTake i h True, DriverDelete i, SemaphoreGive i h False,
     LogE (Could_not_give_mutex i)]"
proof -
  have "[SemaphoreTake i h True, DriverDelete i, SemaphoreGive i h False, LogE (Could_not_give_mutex i)]
      = [SemaphoreTake i h True, DriverDelete i] @ [SemaphoreGive i h False, LogE (Could_not_give_mutex i)]"
    by simp
  then have "\<exists>pre. [SemaphoreTake i h True, DriverDelete i, SemaphoreGive i h False,
        LogE (Could_not_give_mutex i)]
      = pre @ [SemaphoreGive i h False, LogE (Could_not_give_mutex i)]" ..
  then show ?thesis
    by (simp add: teardown_log_def take_abort_def give_abort_def)
qed


lemma teardown_log_next:
  assumes "teardown_log (Suc i) r ev"
  shows "teardown_log i r
     ([SemaphoreTake i h True, DriverDelete i, SemaphoreGive i h True, SemaphoreDelete i h] @ ev)"
proof -
  let ?hd = "[SemaphoreTake i h True, DriverDelete i, SemaphoreGive i h True, SemaphoreDelete i h]"
  from assms have ports: "\<forall>e\<in>set ev. from_port (Suc i) e"
    and tka: "take_abort r ev" and gva: "give_abort r ev"
    by (simp_all add: teardown_log_def)
  have a: "\<forall>e\<in>set (?hd @ ev). from_port i e"
    using ports by (auto intro: from_port_mono)
  have b: "r = ESP_ERR_TIMEOUT
           \<and> (\<exists>pre. ?hd @ ev = pre @ [SemaphoreTake k h' False, LogE (Could_not_take_mutex k)])
           \<and> (\<forall>j h''. k \<le> j \<longrightarrow> DriverDelete j \<notin> set (?hd @ ev) \<and> SemaphoreDelete j h'' \<notin> set (?hd @ ev))"
    if "SemaphoreTake k h' False \<in> set (?hd @ ev)" for k h'
  proof -
    from that have mem: "SemaphoreTake k h' False \<in> set ev" by simp
    with ports have "from_port (Suc i) (SemaphoreTake k h' False)" by blast
    then have ik: "i < k" by simp
    from tka mem obtain pre where
      r: "r = ESP_ERR_TIMEOUT"
      and pre: "ev = pre @ [SemaphoreTake k h' False, LogE (Could_not_take_mutex k)]"
      and rest: "\<forall>j h''. k \<le> j \<longrightarrow> DriverDelete j \<notin> set ev \<and> SemaphoreDelete j h'' \<notin> set ev"
      unfolding take_abort_def by blast
    have "?hd @ ev = (?hd @ pre) @ [SemaphoreTake k h' False, LogE (Could_not_take_mutex k)]"
      using pre by simp
    then have "\<exists>pre. ?hd @ ev = pre @ [SemaphoreTake k h' False, LogE (Could_not_take_mutex k)]" ..
    with r rest ik show ?thesis by auto
  qed
  have c: "r = ESP_FAIL
           \<and> (\<exists>pre. ?hd @ ev = pre @ [SemaphoreGive k h' False, LogE (Could_not_give_mutex k)])
           \<and> (\<forall>j h''. k \<le> j \<longrightarrow> SemaphoreDelete j h'' \<notin> set (?hd @ ev))
           \<and> (\<forall>j. k < j \<longrightarrow> DriverDelete j \<notin> set (?hd @ ev))"
    if "SemaphoreGive k h' False \<in> set (?hd @ ev)" for k h'
  proof -
    from that have mem: "SemaphoreGive k h' False \<in> set ev" by simp
    with ports have "from_port (Suc i) (SemaphoreGive k h' False)" by blast
    then have ik: "i < k" by simp
    from gva mem obtain pre where
      r: "r = ESP_FAIL"
      and pre: "ev = pre @ [SemaphoreGive k h' False, LogE (Could_not_give_mutex k)]"
      and rest: "\<forall>j h''. k \<le> j \<longrightarrow> SemaphoreDelete j h'' \<notin> set ev"
      and rest': "\<forall>j. k < j \<longrightarrow> DriverDelete j \<notin> set ev"
      unfolding give_abort_def by blast
    have "?hd @ ev = (?hd @ pre) @ [SemaphoreGive k h' False, LogE (Could_not_give_mutex k)]"
      using pre by simp
    then have "\<exists>pre. ?hd @ ev = pre @ [SemaphoreGive k h' False, LogE (Could_not_give_mutex k)]" ..
    with r rest rest' ik show ?thesis by auto
  qed
  have "take_abort r (?hd @ ev)"
    unfolding take_abort_def using b by blast
  moreover have "give_abort r (?hd @ ev)"
    unfolding give_abort_def using c by blast
  ultimately show ?thesis
    using a by (simp add: teardown_log_def)
qed


lemma done_from_log:
  "\<exists>ev. snd (i2cdev_done_from n E i s) = s\<lparr>trace := trace s @ ev\<rparr>
        \<and> teardown_log i (fst (i2cdev_done_from n E i s)) ev"
proof (induction "n - i" arbitrary: i s)
  case 0
  then have "i2cdev_done_from n E i s = (ESP_OK, s)"
    by (subst done_from_step) simp
  then have "snd (i2cdev_done_from n E i s) = s\<lparr>trace := trace s @ []\<rparr>
      \<and> teardown_log i (fst (i2cdev_done_from n E i s)) []"
    by (simp add: teardown_log_nil)
  then show ?case ..
next
  case (Suc m)
  then have lt: "i < n" and m: "m = n - Suc i" by simp_all
  let ?l = "locks s i"
  consider (skip) "?l = None"
    | (timeout) "?l \<noteq> None" "\<not> xSemaphoreTake E (trace s) ?l"
    | (fail) "?l \<noteq> None" "xSemaphoreTake E (trace s) ?l"
        "\<not> xSemaphoreGive E (trace s @ [SemaphoreTake i ?l True, DriverDelete i]) ?l"
    | (advance) "?l \<noteq> None" "xSemaphoreTake E (trace s) ?l"
        "xSemaphoreGive E (trace s @ [SemaphoreTake i ?l True, DriverDelete i]) ?l"
    by blast
  then show ?case
  proof cases
    case skip
    then have eq: "i2cdev_done_from n E i s = i2cdev_done_from n E (Suc i) s"
      using lt by (subst done_from_step) simp
    from Suc.hyps(1) [OF m, of s] obtain ev where
      "snd (i2cdev_done_from n E (Suc i) s) = s\<lparr>trace := trace s @ ev\<rparr>"
      "teardown_log (Suc i) (fst (i2cdev_done_from n E (Suc i) s)) ev"
      by blast
    then have "snd (i2cdev_done_from n E i s) = s\<lparr>trace := trace s @ ev\<rparr>
      \<and> teardown_log i (fst (i2cdev_done_from n E i s)) ev"
      by (simp add: eq teardown_log_skip)
    then show ?thesis ..
  next
    case timeout
    let ?ev = "[SemaphoreTake i ?l False, LogE (Could_not_take_mutex i)]"
    have "i2cdev_done_from n E i s = (ESP_ERR_TIMEOUT, s\<lparr>trace := trace s @ ?ev\<rparr>)"
      using lt timeout by (subst done_from_step) auto
    then have "snd (i2cdev_done_from n E i s) = s\<lparr>trace := trace s @ ?ev\<rparr>
      \<and> teardown_log i (fst (i2cdev_done_from n E i s)) ?ev"
      by (simp add: teardown_log_timeout)
    then show ?thesis ..
  next
    case fail
    let ?ev = "[SemaphoreTake i ?l True, DriverDelete i, SemaphoreGive i ?l False,
                LogE (Could_not_give_mutex i)]"
    have "i2cdev_done_from n E i s = (ESP_FAIL, s\<lparr>trace := trace s @ ?ev\<rparr>)"
      using lt fail by (subst done_from_step) auto
    then have "snd (i2cdev_done_from n E i s) = s\<lparr>trace := trace s @ ?ev\<rparr>
      \<and> teardown_log i (fst (i2cdev_done_from n E i s)) ?ev"
      by (simp add: teardown_log_fail)
    then show ?thesis ..
  next
    case advance
    let ?hd = "[SemaphoreTake i ?l True, DriverDelete i, SemaphoreGive i ?l True,
                SemaphoreDelete i ?l]"
    let ?s = "s\<lparr>trace := trace s @ ?hd\<rparr>"
    have eq: "i2cdev_done_from n E i s = i2cdev_done_from n E (Suc i) ?s"
      using lt advance by (subst done_from_step) auto
    from Suc.hyps(1) [OF m, of ?s] obtain ev where
      st: "snd (i2cdev_done_from n E (Suc i) ?s) = ?s\<lparr>trace := trace ?s @ ev\<rparr>"
      and lg: "teardown_log (Suc i) (fst (i2cdev_done_from n E (Suc i) ?s)) ev"
      by blast
    have "snd (i2cdev_done_from n E i s) = s\<lparr>trace := trace s @ (?hd @ ev)\<rparr>"
      by (simp add: eq st)
    moreover have "teardown_log i (fst (i2cdev_done_from n E i s)) (?hd @ ev)"
      unfolding eq using lg by (rule teardown_log_next)
    ultimately have "snd (i2cdev_done_from n E i s) = s\<lparr>trace := trace s @ (?hd @ ev)\<rparr>
      \<and> teardown_log i (fst (i2cdev_done_from n E i s)) (?hd @ ev)" ..
    then show ?thesis ..
  qed
qed

lemma setup_port_keeps_configs: "configs (snd (i2c_setup_port E p c s)) = configs s"
  by (cases c) (simp_all add: i2c_setup_port_def emit_def Let_def)

lemma read_release_error:
  assumes "SemaphoreGive p h False \<in> set (new_events s
             (snd (i2c_dev_read E dev out_data out_size in_data in_size s)))"
  shows "fst (i2c_dev_read E dev out_data out_size in_data in_size s) = ESP_FAIL"
proof -
  let ?run = "i2c_dev_read E dev out_data out_size in_data in_size s"
  have valid: "\<not> (dev = None \<or> in_data = None \<or> in_size = 0)"
    using assms read_invalid [of dev in_data in_size E out_data out_size s]
    by (cases "dev = None \<or> in_data = None \<or> in_size = 0") simp_all
  then obtain d buf where d: "dev = Some d" and buf: "in_data = Some buf" and sz: "in_size \<noteq> 0"
    by auto
  have taken: "xSemaphoreTake E (trace s) (locks s (port d))"
    using assms read_timeout [OF sz, of E s d out_data out_size buf]
    by (cases "xSemaphoreTake E (trace s) (locks s (port d))") (simp_all add: d buf)
  from read_shape [OF sz taken, of out_data out_size buf]
  obtain evs evx res g where
    run: "?run = (if g then res else ESP_FAIL,
          s\<lparr>trace := trace s @ SemaphoreTake (port d) (locks s (port d)) True # evs @ evx
                         @ give_events (port d) (locks s (port d)) g\<rparr>)"
    and evs: "\<forall>e\<in>set evs. is_setup_event e"
    and evx: "evx = [] \<or> evx = read_xfer_events d out_data out_size buf in_size res"
    unfolding d buf by blast
  have "SemaphoreGive p h False \<in> set (give_events (port d) (locks s (port d)) g)"
    using assms setup_not_give [OF evs, of p h False] evx
    by (auto simp: run read_xfer_events_def split: if_splits)
  then have "\<not> g"
    by (auto simp: give_events_def split: if_splits)
  then show ?thesis by (simp add: run)
qed

lemma write_release_error:
  assumes "SemaphoreGive p h False \<in> set (new_events s
             (snd (i2c_dev_write E dev out_reg out_reg_size out_data out_size s)))"
  shows "fst (i2c_dev_write E dev out_reg out_reg_size out_data out_size s) = ESP_FAIL"
proof -
  let ?run = "i2c_dev_write E dev out_reg out_reg_size out_data out_size s"
  have valid: "\<not> (dev = None \<or> out_data = None \<or> out_size = 0)"
    using assms write_invalid [of dev out_data out_size E out_reg out_reg_size s]
    by (cases "dev = None \<or> out_data = None \<or> out_size = 0") simp_all
  then obtain d dat where d: "dev = Some d" and dat: "out_data = Some dat" and sz: "out_size \<noteq> 0"
    by auto
  have taken: "xSemaphoreTake E (trace s) (locks s (port d))"
    using assms write_timeout [OF sz, of E s d out_reg out_reg_size dat]
    by (cases "xSemaphoreTake E (trace s) (locks s (port d))") (simp_all add: d dat)
  from write_shape [OF sz taken, of out_reg out_reg_size dat]
  obtain evs evx res inner_res g where
    run: "?run = (if g then res else ESP_FAIL,
          s\<lparr>trace := trace s @ SemaphoreTake (port d) (locks s (port d)) True # evs @ evx
                         @ give_events (port d) (locks s (port d)) g\<rparr>)"
    and evs: "\<forall>e\<in>set evs. is_setup_event e"
    and evx: "evx = [] \<or> res = ESP_OK
                \<and> evx = write_xfer_events d out_reg out_reg_size dat out_size inner_res"
    unfolding d dat by blast
  have "SemaphoreGive p h False \<in> set (give_events (port d) (locks s (port d)) g)"
    using assms setup_not_give [OF evs, of p h False] evx
    by (auto simp: run write_xfer_events_def split: if_splits)
  then have "\<not> g"
    by (auto simp: give_events_def split: if_splits)
  then show ?thesis by (simp add: run)
qed

text \<open>
  For a 7-bit address the two address bytes are the address shifted left by one, with
  the read/write bit in bit 0.
\<close>

lemma write_address_byte:
  "unat (a :: 8 word) < 128 \<Longrightarrow> unat (push_bit 1 a) = 2 * unat a"
  by (simp add: push_bit_eq_mult unat_word_ariths)

lemma read_address_byte:
  "unat (a :: 8 word) < 128 \<Longrightarrow> unat (push_bit 1 a OR 1) = 2 * unat a + 1"
  by (simp add: push_bit_eq_mult or_one_eq unat_word_ariths)

lemmas run_defs = i2c_dev_read_def i2c_dev_write_def i2c_dev_read_xfer_def i2c_dev_write_xfer_def
  i2c_dev_read_cmd_def i2c_dev_write_cmd_def i2c_setup_port_def cfg_equal_def
  SEMAPHORE_TAKE_def SEMAPHORE_GIVE_def emit_def Let_def
  env_ok_def env_busy_def env_nack_def env_give_fails_def env_port1_busy_def
  dev0_def cfg0_def ready_state_def zero_config_def
  ESP_OK_def ESP_FAIL_def ESP_ERR_TIMEOUT_def ESP_ERR_INVALID_ARG_def

section \<open>Properties\<close>

text \<open>
  Claim C1 says that the second of two consecutive transactions on a port with
  field-wise equal bus configurations makes no delete, param-config or install call.
  The code at a concrete input: after \<^verbatim>\<open>i2cdev_init\<close>, a successful write to \<open>dev0\<close> on
  port 0 is followed by a read from the same device, with the same configuration. The
  read makes all three calls again, because \<^verbatim>\<open>i2c_setup_port\<close> compares with
  \<^verbatim>\<open>configs[port]\<close> and never assigns it.
\<close>

theorem equal_config_reconfigures_again:
  "fst (i2c_dev_write env_ok (Some dev0) None 0 (Some [1, 2, 3, 4]) 4 ready_state) = ESP_OK
   \<and> fst (i2c_dev_read env_ok (Some dev0) None 0 (Some 7) 2 after_first_write) = ESP_OK
   \<and> new_events after_first_write
        (snd (i2c_dev_read env_ok (Some dev0) None 0 (Some 7) 2 after_first_write))
      = [SemaphoreTake 0 (Some 0) True,
         DriverDelete 0,
         ParamConfig 0 cfg0 ESP_OK,
         DriverInstall 0 I2C_MODE_MASTER ESP_OK,
         CmdLinkCreate,
         CmdBegin 0 [Master_start, Master_write_byte 0xD1 True,
                     Master_read 7 2 I2C_MASTER_LAST_NACK, Master_stop] ESP_OK,
         CmdLinkDelete,
         SemaphoreGive 0 (Some 0) True]"
  by (simp add: after_first_write_def new_events_def run_defs)

text \<open>
  Claim C2 says that a configuration applied with success (mode forced to master) is
  stored as the port's cached configuration, and that a failed apply leaves the cache
  as it was. The code at a concrete input: \<^verbatim>\<open>i2c_setup_port\<close> on port 0 with \<open>cfg0\<close>, both
  driver steps succeeding, returns \<^verbatim>\<open>ESP_OK\<close> after delete, param-config and install,
  and \<^verbatim>\<open>configs[0]\<close> is still the zero-initialised entry, which differs from the applied
  configuration. (The cache is left unchanged on every path: \<open>setup_port_keeps_configs\<close>.)
\<close>

theorem successful_apply_is_not_cached:
  "fst (i2c_setup_port env_ok 0 (Some cfg0) ready_state) = ESP_OK
   \<and> new_events ready_state (snd (i2c_setup_port env_ok 0 (Some cfg0) ready_state))
       = [DriverDelete 0, ParamConfig 0 cfg0 ESP_OK, DriverInstall 0 I2C_MODE_MASTER ESP_OK]
   \<and> configs (snd (i2c_setup_port env_ok 0 (Some cfg0) ready_state)) 0 = zero_config
   \<and> zero_config \<noteq> cfg0\<lparr>mode := I2C_MODE_MASTER\<rparr>"
  by (simp add: new_events_def run_defs)

text \<open>
  Claim C3 says that a write whose transfer fails, with validation, lock, port setup and
  lock release all succeeding, returns the transfer error. The code at a concrete input:
  \<^verbatim>\<open>i2c_master_cmd_begin\<close> answers \<^verbatim>\<open>ESP_FAIL\<close>, the failure is logged, the lock is given
  back, and the write returns \<^verbatim>\<open>ESP_OK\<close>. The read of the same device in the same
  environment returns \<^verbatim>\<open>ESP_FAIL\<close>.
\<close>

theorem write_transfer_failure_returns_ok:
  "fst (i2c_dev_write env_nack (Some dev0) None 0 (Some [1, 2, 3, 4]) 4 ready_state) = ESP_OK
   \<and> new_events ready_state
        (snd (i2c_dev_write env_nack (Some dev0) None 0 (Some [1, 2, 3, 4]) 4 ready_state))
      = [SemaphoreTake 0 (Some 0) True,
         DriverDelete 0,
         ParamConfig 0 cfg0 ESP_OK,
         DriverInstall 0 I2C_MODE_MASTER ESP_OK,
         CmdLinkCreate,
         CmdBegin 0 [Master_start, Master_write_byte 0xD0 True,
                     Master_write [1, 2, 3, 4] 4 True, Master_stop] ESP_FAIL,
         LogE (Could_not_write_to_device 0x68 0 ESP_FAIL),
         CmdLinkDelete,
         SemaphoreGive 0 (Some 0) True]
   \<and> fst (i2c_dev_read env_nack (Some dev0) None 0 (Some 7) 2 ready_state) = ESP_FAIL
   \<and> ESP_FAIL \<noteq> ESP_OK"
  by (simp add: new_events_def run_defs)

text \<open>
  Claim C4. A read with a null device descriptor, a null input buffer or a zero input
  size, and a write with a null device descriptor, null output data or a zero output
  size, returns \<^verbatim>\<open>ESP_ERR_INVALID_ARG\<close> and leaves the state as it was: the lock
  table, the configuration table and the history of external calls are unchanged, so
  no lock was taken and no driver primitive was called.
\<close>

theorem invalid_argument_no_side_effects:
  "(dev = None \<or> in_data = None \<or> in_size = 0 \<longrightarrow>
      i2c_dev_read E dev out_data out_size in_data in_size s = (ESP_ERR_INVALID_ARG, s))
   \<and> (dev = None \<or> w_data = None \<or> w_size = 0 \<longrightarrow>
      i2c_dev_write E dev out_reg out_reg_size w_data w_size s = (ESP_ERR_INVALID_ARG, s))"
  by (simp add: i2c_dev_read_def i2c_dev_write_def)

theorem invalid_argument_witness:
  "i2c_dev_read env_ok None None 0 (Some 7) 2 ready_state = (ESP_ERR_INVALID_ARG, ready_state)
   \<and> i2c_dev_write env_ok None None 0 (Some [1, 2]) 0 ready_state
       = (ESP_ERR_INVALID_ARG, ready_state)"
  using invalid_argument_no_side_effects [where dev = None and in_data = "Some 7" and in_size = 2
      and E = env_ok and out_data = None and out_size = 0 and s = ready_state
      and w_data = "Some [1, 2]" and w_size = 0 and out_reg = None and out_reg_size = 0]
  by simp

text \<open>
  Claim C5. When taking the port's lock times out, a read or write on a valid device
  returns \<^verbatim>\<open>ESP_ERR_TIMEOUT\<close>; the only external calls are the failed
  \<^verbatim>\<open>xSemaphoreTake\<close> and the error log line: no delete, param-config, install,
  command link or transfer. The tables are untouched, and neither the result nor the
  events depend on the cached configuration.
\<close>

theorem lock_timeout_touches_nothing:
  assumes "\<not> xSemaphoreTake E (trace s) (locks s (port d))"
  shows "(in_size \<noteq> 0 \<longrightarrow>
            i2c_dev_read E (Some d) out_data out_size (Some buf) in_size s =
              (ESP_ERR_TIMEOUT,
               s\<lparr>trace := trace s @ [SemaphoreTake (port d) (locks s (port d)) False,
                                      LogE (Could_not_take_mutex (port d))]\<rparr>))
       \<and> (w_size \<noteq> 0 \<longrightarrow>
            i2c_dev_write E (Some d) out_reg out_reg_size (Some w_data) w_size s =
              (ESP_ERR_TIMEOUT,
               s\<lparr>trace := trace s @ [SemaphoreTake (port d) (locks s (port d)) False,
                                      LogE (Could_not_take_mutex (port d))]\<rparr>))"
  using assms by (simp add: i2c_dev_read_def i2c_dev_write_def take_cases)

theorem lock_timeout_witness:
  "i2c_dev_read env_busy (Some dev0) None 0 (Some 7) 2 ready_state =
     (ESP_ERR_TIMEOUT,
      ready_state\<lparr>trace := trace ready_state @ [SemaphoreTake 0 (Some 0) False,
                                                LogE (Could_not_take_mutex 0)]\<rparr>)
   \<and> i2c_dev_write env_busy (Some dev0) None 0 (Some [1, 2, 3, 4]) 4 ready_state =
     (ESP_ERR_TIMEOUT,
      ready_state\<lparr>trace := trace ready_state @ [SemaphoreTake 0 (Some 0) False,
                                                LogE (Could_not_take_mutex 0)]\<rparr>)"
  using lock_timeout_touches_nothing [where E = env_busy and s = ready_state and d = dev0
      and in_size = 2 and out_data = None and out_size = 0 and buf = 7
      and w_size = 4 and out_reg = None and out_reg_size = 0 and w_data = "[1, 2, 3, 4]"]
  by (simp add: env_busy_def env_ok_def dev0_def ready_state_def)

text \<open>
  Claim C6. In every read or write that obtained the port lock, \<^verbatim>\<open>xSemaphoreGive\<close> is
  called exactly once, on that port's lock, whatever the port setup and the transfer
  answered (success, configuration failure, transfer failure).
\<close>

theorem lock_released_exactly_once:
  assumes "xSemaphoreTake E (trace s) (locks s (port d))"
  shows "(in_size \<noteq> 0 \<longrightarrow>
            (\<exists>g. filter is_give
                    (new_events s (snd (i2c_dev_read E (Some d) out_data out_size (Some buf) in_size s)))
                  = [SemaphoreGive (port d) (locks s (port d)) g]))
       \<and> (w_size \<noteq> 0 \<longrightarrow>
            (\<exists>g. filter is_give
                    (new_events s (snd (i2c_dev_write E (Some d) out_reg out_reg_size (Some w_data) w_size s)))
                  = [SemaphoreGive (port d) (locks s (port d)) g]))"
proof (intro conjI impI)
  assume "in_size \<noteq> 0"
  from read_shape [OF this assms, of out_data out_size buf]
  obtain evs evx res g where
    run: "i2c_dev_read E (Some d) out_data out_size (Some buf) in_size s
       = (if g then res else ESP_FAIL,
          s\<lparr>trace := trace s @ SemaphoreTake (port d) (locks s (port d)) True # evs @ evx
                         @ give_events (port d) (locks s (port d)) g\<rparr>)"
    and evs: "\<forall>e\<in>set evs. is_setup_event e"
    and evx: "evx = [] \<or> evx = read_xfer_events d out_data out_size buf in_size res"
    by blast
  have "filter is_give evx = []"
    using evx by (auto simp: read_xfer_events_def)
  then have "filter is_give
      (new_events s (snd (i2c_dev_read E (Some d) out_data out_size (Some buf) in_size s)))
      = [SemaphoreGive (port d) (locks s (port d)) g]"
    by (simp add: run setup_no_give [OF evs] give_events_def)
  then show "\<exists>g. filter is_give
      (new_events s (snd (i2c_dev_read E (Some d) out_data out_size (Some buf) in_size s)))
      = [SemaphoreGive (port d) (locks s (port d)) g]" ..
next
  assume "w_size \<noteq> 0"
  from write_shape [OF this assms, of out_reg out_reg_size w_data]
  obtain evs evx res inner_res g where
    run: "i2c_dev_write E (Some d) out_reg out_reg_size (Some w_data) w_size s
       = (if g then res else ESP_FAIL,
          s\<lparr>trace := trace s @ SemaphoreTake (port d) (locks s (port d)) True # evs @ evx
                         @ give_events (port d) (locks s (port d)) g\<rparr>)"
    and evs: "\<forall>e\<in>set evs. is_setup_event e"
    and evx: "evx = [] \<or> res = ESP_OK \<and> evx = write_xfer_events d out_reg out_reg_size w_data w_size inner_res"
    by blast
  have "filter is_give evx = []"
    using evx by (auto simp: write_xfer_events_def)
  then have "filter is_give
      (new_events s (snd (i2c_dev_write E (Some d) out_reg out_reg_size (Some w_data) w_size s)))
      = [SemaphoreGive (port d) (locks s (port d)) g]"
    by (simp add: run setup_no_give [OF evs] give_events_def)
  then show "\<exists>g. filter is_give
      (new_events s (snd (i2c_dev_write E (Some d) out_reg out_reg_size (Some w_data) w_size s)))
      = [SemaphoreGive (port d) (locks s (port d)) g]" ..
qed

theorem lock_released_witness:
  "filter is_give (new_events ready_state
      (snd (i2c_dev_read env_nack (Some dev0) None 0 (Some 7) 2 ready_state)))
     = [SemaphoreGive 0 (Some 0) True]
   \<and> filter is_give (new_events ready_state
      (snd (i2c_dev_write env_nack (Some dev0) None 0 (Some [1, 2, 3, 4]) 4 ready_state)))
     = [SemaphoreGive 0 (Some 0) True]"
  using lock_released_exactly_once [where E = env_nack and s = ready_state and d = dev0
      and in_size = 2 and out_data = None and out_size = 0 and buf = 7
      and w_size = 4 and out_reg = None and out_reg_size = 0 and w_data = "[1, 2, 3, 4]"]
  by (simp add: new_events_def run_defs)

text \<open>
  Claim C7. A read with a non-null prefix buffer of non-zero size that reaches
  \<^verbatim>\<open>i2c_master_cmd_begin\<close> runs, on the device's port, exactly this command link: start,
  address byte \<^verbatim>\<open>addr << 1\<close> (write bit) with ack check, the prefix bytes with ack
  check, a second start with no stop before it, address byte \<^verbatim>\<open>(addr << 1) | 1\<close> (read
  bit) with ack check, a read of \<open>in_size\<close> bytes with NACK on the last byte, stop.
\<close>

theorem read_command_sequence:
  assumes "out_size \<noteq> 0"
    and "CmdBegin p c r \<in> set (new_events s
           (snd (i2c_dev_read E (Some d) (Some pre) out_size (Some buf) in_size s)))"
  shows "p = port d \<and>
     c = [Master_start,
          Master_write_byte (push_bit 1 (addr d)) True,
          Master_write pre out_size True,
          Master_start,
          Master_write_byte (push_bit 1 (addr d) OR 1) True,
          Master_read buf in_size I2C_MASTER_LAST_NACK,
          Master_stop]"
proof -
  let ?run = "i2c_dev_read E (Some d) (Some pre) out_size (Some buf) in_size s"
  have valid: "in_size \<noteq> 0"
    using assms(2) read_invalid [of "Some d" "Some buf" in_size E "Some pre" out_size s]
    by (cases "in_size = 0") simp_all
  have taken: "xSemaphoreTake E (trace s) (locks s (port d))"
    using assms(2) read_timeout [OF valid, of E s d "Some pre" out_size buf]
    by (cases "xSemaphoreTake E (trace s) (locks s (port d))") simp_all
  from read_shape [OF valid taken, of "Some pre" out_size buf]
  obtain evs evx res g where
    run: "?run = (if g then res else ESP_FAIL,
          s\<lparr>trace := trace s @ SemaphoreTake (port d) (locks s (port d)) True # evs @ evx
                         @ give_events (port d) (locks s (port d)) g\<rparr>)"
    and evs: "\<forall>e\<in>set evs. is_setup_event e"
    and evx: "evx = [] \<or> evx = read_xfer_events d (Some pre) out_size buf in_size res"
    by blast
  have "CmdBegin p c r \<in> set evx"
    using assms(2) setup_not_begin [OF evs, of p c r]
    by (auto simp: run give_events_def split: if_splits)
  then have "p = port d \<and> c = i2c_dev_read_cmd d (Some pre) out_size buf in_size"
    using evx by (auto simp: read_xfer_events_def split: if_splits)
  then show ?thesis
    using assms(1) by (simp add: i2c_dev_read_cmd_def)
qed

theorem read_command_sequence_witness:
  "(3::nat) \<noteq> 0
   \<and> CmdBegin 0 [Master_start, Master_write_byte 0xD0 True, Master_write [0x3B, 0, 1] 3 True,
                 Master_start, Master_write_byte 0xD1 True,
                 Master_read 7 2 I2C_MASTER_LAST_NACK, Master_stop] ESP_OK
       \<in> set (new_events ready_state
            (snd (i2c_dev_read env_ok (Some dev0) (Some [0x3B, 0, 1]) 3 (Some 7) 2 ready_state)))
   \<and> 0 = port dev0
   \<and> [Master_start, Master_write_byte 0xD0 True, Master_write [0x3B, 0, 1] 3 True,
       Master_start, Master_write_byte 0xD1 True,
       Master_read 7 2 I2C_MASTER_LAST_NACK, Master_stop]
     = [Master_start, Master_write_byte (push_bit 1 (addr dev0)) True,
        Master_write [0x3B, 0, 1] 3 True, Master_start,
        Master_write_byte (push_bit 1 (addr dev0) OR 1) True,
        Master_read 7 2 I2C_MASTER_LAST_NACK, Master_stop]"
  using read_command_sequence [where out_size = 3 and p = 0 and r = ESP_OK and s = ready_state
      and E = env_ok and d = dev0 and pre = "[0x3B, 0, 1]" and buf = 7 and in_size = 2
      and c = "[Master_start, Master_write_byte 0xD0 True, Master_write [0x3B, 0, 1] 3 True,
                 Master_start, Master_write_byte 0xD1 True,
                 Master_read 7 2 I2C_MASTER_LAST_NACK, Master_stop]"]
  by (simp add: new_events_def run_defs)

text \<open>
  Claim C8. A write that reaches \<^verbatim>\<open>i2c_master_cmd_begin\<close> runs, on the device's port,
  exactly: start, address byte \<^verbatim>\<open>addr << 1\<close> with ack check, the data bytes, stop when
  the prefix pointer is null or its size is zero (no prefix entry, no second start);
  and start, address byte, the prefix bytes, the data bytes, stop otherwise.
\<close>

theorem write_command_sequence:
  assumes "CmdBegin p c r \<in> set (new_events s
           (snd (i2c_dev_write E (Some d) out_reg out_reg_size (Some dat) out_size s)))"
  shows "p = port d
    \<and> (out_reg = None \<or> out_reg_size = 0 \<longrightarrow>
         c = [Master_start,
              Master_write_byte (push_bit 1 (addr d)) True,
              Master_write dat out_size True,
              Master_stop])
    \<and> (\<forall>reg. out_reg = Some reg \<and> out_reg_size \<noteq> 0 \<longrightarrow>
         c = [Master_start,
              Master_write_byte (push_bit 1 (addr d)) True,
              Master_write reg out_reg_size True,
              Master_write dat out_size True,
              Master_stop])"
proof -
  let ?run = "i2c_dev_write E (Some d) out_reg out_reg_size (Some dat) out_size s"
  have valid: "out_size \<noteq> 0"
    using assms write_invalid [of "Some d" "Some dat" out_size E out_reg out_reg_size s]
    by (cases "out_size = 0") simp_all
  have taken: "xSemaphoreTake E (trace s) (locks s (port d))"
    using assms write_timeout [OF valid, of E s d out_reg out_reg_size dat]
    by (cases "xSemaphoreTake E (trace s) (locks s (port d))") simp_all
  from write_shape [OF valid taken, of out_reg out_reg_size dat]
  obtain evs evx res inner_res g where
    run: "?run = (if g then res else ESP_FAIL,
          s\<lparr>trace := trace s @ SemaphoreTake (port d) (locks s (port d)) True # evs @ evx
                         @ give_events (port d) (locks s (port d)) g\<rparr>)"
    and evs: "\<forall>e\<in>set evs. is_setup_event e"
    and evx: "evx = [] \<or> res = ESP_OK
                \<and> evx = write_xfer_events d out_reg out_reg_size dat out_size inner_res"
    by blast
  have "CmdBegin p c r \<in> set evx"
    using assms setup_not_begin [OF evs, of p c r]
    by (auto simp: run give_events_def split: if_splits)
  then have "p = port d \<and> c = i2c_dev_write_cmd d out_reg out_reg_size dat out_size"
    using evx by (auto simp: write_xfer_events_def split: if_splits)
  then show ?thesis
    by (auto simp: i2c_dev_write_cmd_def)
qed

theorem write_command_sequence_witness:
  "CmdBegin 0 [Master_start, Master_write_byte 0xD0 True, Master_write [1, 2, 3, 4] 4 True,
               Master_stop] ESP_OK
       \<in> set (new_events ready_state
            (snd (i2c_dev_write env_ok (Some dev0) (Some [9]) 0 (Some [1, 2, 3, 4]) 4 ready_state)))
   \<and> CmdBegin 0 [Master_start, Master_write_byte 0xD0 True, Master_write [0x6B] 1 True,
               Master_write [1, 2, 3, 4] 4 True, Master_stop] ESP_OK
       \<in> set (new_events ready_state
            (snd (i2c_dev_write env_ok (Some dev0) (Some [0x6B]) 1 (Some [1, 2, 3, 4]) 4 ready_state)))
   \<and> push_bit 1 (addr dev0) = (0xD0 :: 8 word)"
  using write_command_sequence [where p = 0 and r = ESP_OK and s = ready_state
      and E = env_ok and d = dev0 and out_reg = "Some [9]" and out_reg_size = 0
      and dat = "[1, 2, 3, 4]" and out_size = 4
      and c = "[Master_start, Master_write_byte 0xD0 True, Master_write [1, 2, 3, 4] 4 True,
                Master_stop]"]
    write_command_sequence [where p = 0 and r = ESP_OK and s = ready_state
      and E = env_ok and d = dev0 and out_reg = "Some [0x6B]" and out_reg_size = 1
      and dat = "[1, 2, 3, 4]" and out_size = 4
      and c = "[Master_start, Master_write_byte 0xD0 True, Master_write [0x6B] 1 True,
                Master_write [1, 2, 3, 4] 4 True, Master_stop]"]
  by (simp add: new_events_def run_defs)

text \<open>
  Claim C9. A read or write in which \<^verbatim>\<open>xSemaphoreGive\<close> fails returns \<^verbatim>\<open>ESP_FAIL\<close>,
  whatever result the call had captured before, a successful transfer included.
\<close>

theorem release_error_supersedes:
  "(SemaphoreGive p h False \<in> set (new_events s
        (snd (i2c_dev_read E dev out_data out_size in_data in_size s))) \<longrightarrow>
      fst (i2c_dev_read E dev out_data out_size in_data in_size s) = ESP_FAIL)
   \<and> (SemaphoreGive p h False \<in> set (new_events s
        (snd (i2c_dev_write E dev out_reg out_reg_size w_data w_size s))) \<longrightarrow>
      fst (i2c_dev_write E dev out_reg out_reg_size w_data w_size s) = ESP_FAIL)"
  using read_release_error write_release_error by blast

theorem release_error_witness:
  "SemaphoreGive 0 (Some 0) False \<in> set (new_events ready_state
        (snd (i2c_dev_read env_give_fails (Some dev0) None 0 (Some 7) 2 ready_state)))
   \<and> CmdBegin 0 [Master_start, Master_write_byte 0xD1 True,
                 Master_read 7 2 I2C_MASTER_LAST_NACK, Master_stop] ESP_OK
       \<in> set (new_events ready_state
        (snd (i2c_dev_read env_give_fails (Some dev0) None 0 (Some 7) 2 ready_state)))
   \<and> fst (i2c_dev_read env_give_fails (Some dev0) None 0 (Some 7) 2 ready_state) = ESP_FAIL
   \<and> SemaphoreGive 0 (Some 0) False \<in> set (new_events ready_state
        (snd (i2c_dev_write env_give_fails (Some dev0) None 0 (Some [1, 2, 3, 4]) 4 ready_state)))
   \<and> fst (i2c_dev_write env_give_fails (Some dev0) None 0 (Some [1, 2, 3, 4]) 4 ready_state)
       = ESP_FAIL"
  using release_error_supersedes [where p = 0 and h = "Some 0" and s = ready_state
      and E = env_give_fails and dev = "Some dev0" and out_data = None and out_size = 0
      and in_data = "Some 7" and in_size = 2 and out_reg = None and out_reg_size = 0
      and w_data = "Some [1, 2, 3, 4]" and w_size = 4]
  by (simp add: new_events_def run_defs)

text \<open>
  Claim C10. During \<^verbatim>\<open>i2cdev_done\<close>, when taking the lock of port \<open>k\<close> times out, the
  call returns \<^verbatim>\<open>ESP_ERR_TIMEOUT\<close> at once: the failed take and its log line are the
  last events, no \<^verbatim>\<open>i2c_driver_delete\<close> is made for port \<open>k\<close> or any later port, and
  no \<^verbatim>\<open>vSemaphoreDelete\<close> for the lock of port \<open>k\<close> or of any later port. When giving
  the lock of port \<open>k\<close> back fails, the call returns \<^verbatim>\<open>ESP_FAIL\<close> at once: the lock of
  port \<open>k\<close> and of every later port is not deleted, and no later port's driver is
  deleted.
\<close>

theorem shutdown_stops_at_lock_failure:
  "(SemaphoreTake k h False \<in> set (new_events s (snd (i2cdev_done n E s))) \<longrightarrow>
      fst (i2cdev_done n E s) = ESP_ERR_TIMEOUT
      \<and> (\<exists>pre. new_events s (snd (i2cdev_done n E s))
                 = pre @ [SemaphoreTake k h False, LogE (Could_not_take_mutex k)])
      \<and> (\<forall>j h'. k \<le> j \<longrightarrow>
             DriverDelete j \<notin> set (new_events s (snd (i2cdev_done n E s)))
             \<and> SemaphoreDelete j h' \<notin> set (new_events s (snd (i2cdev_done n E s)))))
   \<and> (SemaphoreGive k h False \<in> set (new_events s (snd (i2cdev_done n E s))) \<longrightarrow>
      fst (i2cdev_done n E s) = ESP_FAIL
      \<and> (\<exists>pre. new_events s (snd (i2cdev_done n E s))
                 = pre @ [SemaphoreGive k h False, LogE (Could_not_give_mutex k)])
      \<and> (\<forall>j h'. k \<le> j \<longrightarrow>
             SemaphoreDelete j h' \<notin> set (new_events s (snd (i2cdev_done n E s))))
      \<and> (\<forall>j. k < j \<longrightarrow> DriverDelete j \<notin> set (new_events s (snd (i2cdev_done n E s)))))"
proof -
  from done_from_log [of n E 0 s] obtain ev where
    st: "snd (i2cdev_done n E s) = s\<lparr>trace := trace s @ ev\<rparr>"
    and lg: "teardown_log 0 (fst (i2cdev_done n E s)) ev"
    unfolding i2cdev_done_def by blast
  have ev: "new_events s (snd (i2cdev_done n E s)) = ev"
    by (simp add: st)
  from lg have "take_abort (fst (i2cdev_done n E s)) ev" and "give_abort (fst (i2cdev_done n E s)) ev"
    by (simp_all add: teardown_log_def)
  then show ?thesis
    unfolding ev take_abort_def give_abort_def by blast
qed

theorem shutdown_witness:
  "i2cdev_done 2 env_port1_busy ready_state =
     (ESP_ERR_TIMEOUT,
      ready_state\<lparr>trace := trace ready_state @
        [SemaphoreTake 0 (Some 0) True, DriverDelete 0, SemaphoreGive 0 (Some 0) True,
         SemaphoreDelete 0 (Some 0),
         SemaphoreTake 1 (Some 1) False, LogE (Could_not_take_mutex 1)]\<rparr>)
   \<and> DriverDelete 1 \<notin> set (new_events ready_state (snd (i2cdev_done 2 env_port1_busy ready_state)))
   \<and> SemaphoreDelete 1 (Some 1)
       \<notin> set (new_events ready_state (snd (i2cdev_done 2 env_port1_busy ready_state)))
   \<and> i2cdev_done 2 env_give_fails ready_state =
     (ESP_FAIL,
      ready_state\<lparr>trace := trace ready_state @
        [SemaphoreTake 0 (Some 0) True, DriverDelete 0, SemaphoreGive 0 (Some 0) False,
         LogE (Could_not_give_mutex 0)]\<rparr>)
   \<and> SemaphoreDelete 0 (Some 0)
       \<notin> set (new_events ready_state (snd (i2cdev_done 2 env_give_fails ready_state)))
   \<and> DriverDelete 1 \<notin> set (new_events ready_state (snd (i2cdev_done 2 env_give_fails ready_state)))"
  using shutdown_stops_at_lock_failure [where k = 1 and h = "Some 1" and s = ready_state
      and n = 2 and E = env_port1_busy]
    shutdown_stops_at_lock_failure [where k = 0 and h = "Some 0" and s = ready_state
      and n = 2 and E = env_give_fails]
  by (simp add: i2cdev_done_def i2cdev_done_from.simps new_events_def run_defs)

end
